theory Spec2Isabelle
  imports Complex_Main "HOL-Library.Word"
begin

section \<open>Firmware build orchestration of \<open>http_main.py\<close>\<close>

text \<open>
  The development embeds the firmware part of \<open>http_main.py\<close>: the three gateway
  adapters \<open>req_gen_firmware\<close>, \<open>req_gen_status\<close>, \<open>req_download_firmware\<close>, the
  poll loop \<open>get_firmware\<close> and the two request handlers \<open>post_asr\<close> and
  \<open>get_asr_status\<close>. Everything the code does to the outside (HTTP calls, sleeping,
  logging, writing a file) is threaded through an explicit \<open>world\<close>; every
  exception that the code does not catch is a value \<open>Inl e\<close>.
\<close>

subsection \<open>Python values\<close>

text \<open>
  What \<open>res.json()\<close> can return. A finite float is kept as the rational it denotes;
  \<open>PNonFinite\<close> stands for \<open>nan\<close>, \<open>inf\<close> and \<open>-inf\<close>, which Python's decoder
  accepts. A dict is the list of its items, read with \<open>map_of\<close>.
\<close>

datatype pyval =
    PNone
  | PBool bool
  | PInt int
  | PFloat rat
  | PNonFinite
  | PStr string
  | PList "pyval list"
  | PDict "(string \<times> pyval) list"

datatype py_error =
    ConnectionError
  | JSONDecodeError
  | KeyError string
  | TypeError
  | OSError

type_synonym bytes = "8 word list"

text \<open>\<open>v[key]\<close> for a string \<open>key\<close>: only a dict can be indexed by a string.\<close>

fun subscript :: "pyval \<Rightarrow> string \<Rightarrow> py_error + pyval" where
  "subscript (PDict items) key =
     (case map_of items key of None \<Rightarrow> Inl (KeyError key) | Some v \<Rightarrow> Inr v)"
| "subscript v key = Inl TypeError"

text \<open>
  \<open>v == n\<close> for an int literal \<open>n\<close>. A bool is the int 0 or 1, a float is compared
  by value, every other kind of value is unequal to an int.
\<close>

fun py_eq_int :: "pyval \<Rightarrow> int \<Rightarrow> bool" where
  "py_eq_int (PInt i) n = (i = n)"
| "py_eq_int (PBool b) n = ((if b then 1 else 0) = n)"
| "py_eq_int (PFloat q) n = (q = of_int n)"
| "py_eq_int v n = False"

text \<open>An f-string field holding the result of \<open>os.environ.get\<close>.\<close>

fun fstr :: "string option \<Rightarrow> string" where
  "fstr None = ''None''"
| "fstr (Some s) = s"

subsection \<open>The world\<close>

text \<open>
  A response of the \<open>requests\<close> library as the code reads it: \<open>status_code\<close>,
  \<open>text\<close>, \<open>content\<close> and the result of \<open>json()\<close> (\<open>None\<close> when the body is not
  JSON and \<open>json()\<close> raises).
\<close>

record response =
  status_code :: int
  text' :: string
  content :: bytes
  json_body :: "pyval option"

datatype request = GET string | POST string pyval

datatype net_reply = Transport_fault | Http response

text \<open>
  The messages of the five \<open>logger\<close> calls, named by what they report, each with the
  value its f-string prints: lines 158, 173, 186 (\<open>res.text\<close>), 205 and 208
  (\<open>gen_id\<close>).
\<close>

datatype log_msg =
    Create_failed string
  | Status_failed string
  | Download_failed string
  | Firmware_failed string
  | Firmware_succeeded string

datatype event =
    Sleep nat
  | Call request net_reply
  | Log_error log_msg
  | Log_success log_msg
  | File_write string bytes

text \<open>
  \<open>trace\<close> lists what has happened so far, oldest first; a call is listed with the
  reply it got. The gateway is any deterministic peer: its reply may depend on
  everything that happened before. \<open>environ\<close> is \<open>os.environ.get\<close>,
  \<open>writable\<close> tells whether \<open>open(path, "wb")\<close> succeeds, \<open>files\<close> is the
  content of the local files.
\<close>

record world =
  environ :: "string \<Rightarrow> string option"
  gateway :: "event list \<Rightarrow> request \<Rightarrow> net_reply"
  writable :: "string \<Rightarrow> bool"
  files :: "string \<Rightarrow> bytes option"
  trace :: "event list"

definition emit :: "event \<Rightarrow> world \<Rightarrow> world" where
  "emit e w = w\<lparr>trace := trace w @ [e]\<rparr>"

definition time_sleep :: "nat \<Rightarrow> world \<Rightarrow> world" where
  "time_sleep n w = emit (Sleep n) w"

text \<open>
  \<open>requests.get\<close> and \<open>requests.post\<close>: one blocking call; a transport fault
  raises, any HTTP response is returned.
\<close>

definition requests_call :: "request \<Rightarrow> world \<Rightarrow> (py_error + response) \<times> world" where
  "requests_call rq w =
     (case gateway w (trace w) rq of
        Transport_fault \<Rightarrow> (Inl ConnectionError, emit (Call rq Transport_fault) w)
      | Http res \<Rightarrow> (Inr res, emit (Call rq (Http res)) w))"

definition res_json :: "response \<Rightarrow> py_error + pyval" where
  "res_json res = (case json_body res of None \<Rightarrow> Inl JSONDecodeError | Some v \<Rightarrow> Inr v)"

text \<open>\<open>req_data[k1][k2]\<close> after \<open>req_data = res.json()\<close>.\<close>

definition json_field2 :: "response \<Rightarrow> string \<Rightarrow> string \<Rightarrow> py_error + pyval" where
  "json_field2 res k1 k2 =
     (case res_json res of
        Inl e \<Rightarrow> Inl e
      | Inr req_data \<Rightarrow>
          (case subscript req_data k1 of
             Inl e \<Rightarrow> Inl e
           | Inr d \<Rightarrow> subscript d k2))"

text \<open>
  \<open>with open(save_path, "wb") as f: f.write(content)\<close>: the file is replaced by the
  content, or \<open>open\<close> raises and nothing changes.
\<close>

definition write_file :: "string \<Rightarrow> bytes \<Rightarrow> world \<Rightarrow> (py_error + unit) \<times> world" where
  "write_file path bs w =
     (if writable w path
      then (Inr (), emit (File_write path bs) (w\<lparr>files := (files w)(path \<mapsto> bs)\<rparr>))
      else (Inl OSError, w))"

subsection \<open>The gateway adapters\<close>

definition create_url :: "world \<Rightarrow> string" where
  "create_url w = fstr (environ w ''FIRMWARE_SERVER'') @ ''/api/v1/asr''"

definition status_url :: "world \<Rightarrow> string \<Rightarrow> string" where
  "status_url w gen_id =
     fstr (environ w ''FIRMWARE_SERVER'') @ ''/api/v1/firmware/status?prj_name='' @ gen_id"

definition download_url :: "world \<Rightarrow> string \<Rightarrow> string" where
  "download_url w gen_id =
     fstr (environ w ''FIRMWARE_SERVER'') @ ''/api/v1/firmware/download?prj_name='' @ gen_id"

definition save_path :: "world \<Rightarrow> string \<Rightarrow> string" where
  "save_path w gen_id = fstr (environ w ''FIRMWARE_PATH'') @ ''/'' @ gen_id @ ''.bin''"

definition req_gen_firmware :: "pyval \<Rightarrow> world \<Rightarrow> (py_error + pyval) \<times> world" where
  "req_gen_firmware data w =
     (case requests_call (POST (create_url w) data) w of
        (Inl e, w1) \<Rightarrow> (Inl e, w1)
      | (Inr res, w1) \<Rightarrow>
          if status_code res \<noteq> 200
          then (Inr PNone, emit (Log_error (Create_failed (text' res))) w1)
          else (json_field2 res ''data'' ''id'', w1))"

definition req_gen_status :: "string \<Rightarrow> world \<Rightarrow> (py_error + pyval) \<times> world" where
  "req_gen_status gen_id w =
     (case requests_call (GET (status_url w gen_id)) w of
        (Inl e, w1) \<Rightarrow> (Inl e, w1)
      | (Inr res, w1) \<Rightarrow>
          if status_code res \<noteq> 200
          then (Inr PNone, emit (Log_error (Status_failed (text' res))) w1)
          else (json_field2 res ''data'' ''status'', w1))"

definition req_download_firmware ::
  "string \<Rightarrow> world \<Rightarrow> (py_error + string option) \<times> world" where
  "req_download_firmware gen_id w =
     (case requests_call (GET (download_url w gen_id)) w of
        (Inl e, w1) \<Rightarrow> (Inl e, w1)
      | (Inr res, w1) \<Rightarrow>
          if status_code res \<noteq> 200
          then (Inr None, emit (Log_error (Download_failed (text' res))) w1)
          else (case write_file (save_path w1 gen_id) (content res) w1 of
                  (Inl e, w2) \<Rightarrow> (Inl e, w2)
                | (Inr u, w2) \<Rightarrow> (Inr (Some (save_path w1 gen_id)), w2)))"

subsection \<open>The poll loop\<close>

text \<open>
  The \<open>while True\<close> loop of \<open>get_firmware\<close>. It leaves with \<open>gen_result\<close> at a
  \<open>break\<close>, with \<open>Inl e\<close> when \<open>req_gen_status\<close> raises, and it may run forever:
  then the value is \<open>None\<close>. The job id of the poller and of the adapters it
  calls is a string, as their annotation \<open>gen_id: str\<close> says.
\<close>

partial_function (option) get_firmware_loop ::
  "string \<Rightarrow> world \<Rightarrow> ((py_error + bool) \<times> world) option" where
  "get_firmware_loop gen_id w =
     (case req_gen_status gen_id (time_sleep 5 w) of
        (Inl e, w1) \<Rightarrow> Some (Inl e, w1)
      | (Inr gen_status, w1) \<Rightarrow>
          if py_eq_int gen_status 3
          then Some (Inr False, emit (Log_error (Firmware_failed gen_id)) w1)
          else if py_eq_int gen_status 2
          then Some (Inr True, emit (Log_success (Firmware_succeeded gen_id)) w1)
          else get_firmware_loop gen_id w1)"

declare get_firmware_loop.simps [code]

definition get_firmware ::
  "string \<Rightarrow> world \<Rightarrow> ((py_error + string option) \<times> world) option" where
  "get_firmware gen_id w =
     (case get_firmware_loop gen_id w of
        None \<Rightarrow> None
      | Some (Inl e, w1) \<Rightarrow> Some (Inl e, w1)
      | Some (Inr gen_result, w1) \<Rightarrow>
          if gen_result then Some (req_download_firmware gen_id w1)
          else Some (Inr None, w1))"

subsection \<open>The request handlers\<close>

record response_model =
  rm_status :: int
  rm_message :: string
  rm_data :: pyval

definition ResponseModel :: "pyval \<Rightarrow> response_model" where
  "ResponseModel d = \<lparr>rm_status = 200, rm_message = ''success'', rm_data = d\<rparr>"

text \<open>
  \<open>background_tasks.add_task(get_firmware, gen_id)\<close> appends the call to the
  request's task list, with the argument as \<open>post_asr\<close> passes it, which is
  whatever \<open>req_gen_firmware\<close> returned; the tasks run after the handler has
  returned its response.
\<close>

datatype task = Get_firmware_task pyval

definition add_task :: "task \<Rightarrow> task list \<Rightarrow> task list" where
  "add_task t background_tasks = background_tasks @ [t]"

definition post_asr ::
  "string \<Rightarrow> task list \<Rightarrow> world \<Rightarrow> (py_error + response_model \<times> task list) \<times> world" where
  "post_asr wakeKeyword background_tasks w =
     (case req_gen_firmware (PDict [(''wakeKeyword'', PStr wakeKeyword)]) w of
        (Inl e, w1) \<Rightarrow> (Inl e, w1)
      | (Inr gen_id, w1) \<Rightarrow>
          (Inr (ResponseModel (PDict [(''id'', gen_id)]),
                add_task (Get_firmware_task gen_id) background_tasks), w1))"

definition get_asr_status :: "string \<Rightarrow> world \<Rightarrow> (py_error + response_model) \<times> world" where
  "get_asr_status prj_name w =
     (case req_gen_status prj_name w of
        (Inl e, w1) \<Rightarrow> (Inl e, w1)
      | (Inr st, w1) \<Rightarrow> (Inr (ResponseModel st), w1))"

subsection \<open>Reading a trace\<close>

fun is_file_write :: "event \<Rightarrow> bool" where
  "is_file_write (File_write path bs) = True"
| "is_file_write e = False"

fun is_call_to :: "request \<Rightarrow> event \<Rightarrow> bool" where
  "is_call_to rq (Call rq' rp) = (rq' = rq)"
| "is_call_to rq e = False"

text \<open>The sleeps and the requests of a trace, in order: \<open>Inl n\<close> is a sleep of \<open>n\<close> seconds.\<close>

fun sleep_or_request :: "event \<Rightarrow> (nat + request) list" where
  "sleep_or_request (Sleep n) = [Inl n]"
| "sleep_or_request (Call rq rp) = [Inr rq]"
| "sleep_or_request e = []"

definition timeline :: "event list \<Rightarrow> (nat + request) list" where
  "timeline evs = concat (map sleep_or_request evs)"

text \<open>
  What \<open>req_gen_status\<close> hands to the poll loop for a reply of the gateway, and the
  statuses that the loop has observed according to a trace: one for each call of
  the status URL.
\<close>

definition status_result :: "net_reply \<Rightarrow> py_error + pyval" where
  "status_result rp =
     (case rp of
        Transport_fault \<Rightarrow> Inl ConnectionError
      | Http res \<Rightarrow>
          if status_code res \<noteq> 200 then Inr PNone
          else json_field2 res ''data'' ''status'')"

definition status_log_events :: "net_reply \<Rightarrow> event list" where
  "status_log_events rp =
     (case rp of
        Transport_fault \<Rightarrow> []
      | Http res \<Rightarrow>
          if status_code res \<noteq> 200 then [Log_error (Status_failed (text' res))] else [])"

fun observed :: "request \<Rightarrow> event \<Rightarrow> (py_error + pyval) list" where
  "observed rq (Call rq' rp) = (if rq' = rq then [status_result rp] else [])"
| "observed rq e = []"

definition status_observations ::
  "world \<Rightarrow> string \<Rightarrow> event list \<Rightarrow> (py_error + pyval) list" where
  "status_observations w gen_id evs =
     concat (map (observed (GET (status_url w gen_id))) evs)"

fun is_status :: "int \<Rightarrow> py_error + pyval \<Rightarrow> bool" where
  "is_status n (Inr v) = py_eq_int v n"
| "is_status n (Inl e) = False"

text \<open>
  Whether a decoded body has a dict under \<open>k1\<close> that has the key \<open>k2\<close>.
\<close>

fun has_key :: "pyval \<Rightarrow> string \<Rightarrow> bool" where
  "has_key (PDict items) k = (k \<in> fst ` set items)"
| "has_key v k = False"

definition has_keys :: "pyval \<Rightarrow> string \<Rightarrow> string \<Rightarrow> bool" where
  "has_keys v k1 k2 =
     (has_key v k1 \<and> (case subscript v k1 of Inl e \<Rightarrow> False | Inr d \<Rightarrow> has_key d k2))"

subsection \<open>Scripted gateways\<close>

text \<open>
  A gateway that serves a list of status values in order at one status URL, each
  in the body \<open>{"data": {"status": st}}\<close> of a 200 response, and otherwise behaves
  as \<open>other\<close>.
\<close>

definition status_response :: "pyval \<Rightarrow> response" where
  "status_response st =
     \<lparr>status_code = 200, text' = [], content = [],
      json_body = Some (PDict [(''data'', PDict [(''status'', st)])])\<rparr>"

definition scripted_gateway ::
  "string \<Rightarrow> pyval list \<Rightarrow> (event list \<Rightarrow> request \<Rightarrow> net_reply) \<Rightarrow>
   event list \<Rightarrow> request \<Rightarrow> net_reply" where
  "scripted_gateway url script other tr rq =
     (if rq = GET url \<and> length (filter (is_call_to (GET url)) tr) < length script
      then Http (status_response (script ! length (filter (is_call_to (GET url)) tr)))
      else other tr rq)"

definition scripted_world :: "world \<Rightarrow> string \<Rightarrow> pyval list \<Rightarrow> world" where
  "scripted_world w gen_id script =
     w\<lparr>gateway := scripted_gateway (status_url w gen_id) script (gateway w), trace := []\<rparr>"

text \<open>A gateway with one reply to everything, and a world to run it in.\<close>

definition always :: "net_reply \<Rightarrow> event list \<Rightarrow> request \<Rightarrow> net_reply" where
  "always rp tr rq = rp"

text \<open>
  A gateway that replays a list of replies: the n-th call of a request gets the
  n-th reply, and a transport fault once the list is used up.
\<close>

definition replaying :: "net_reply list \<Rightarrow> event list \<Rightarrow> request \<Rightarrow> net_reply" where
  "replaying rps tr rq =
     (if length (filter (is_call_to rq) tr) < length rps
      then rps ! length (filter (is_call_to rq) tr)
      else Transport_fault)"

definition empty_response :: "int \<Rightarrow> response" where
  "empty_response code = \<lparr>status_code = code, text' = [], content = [], json_body = None\<rparr>"

definition empty_object_response :: "int \<Rightarrow> response" where
  "empty_object_response code =
     \<lparr>status_code = code, text' = ''{}'', content = [0x7B, 0x7D], json_body = Some (PDict [])\<rparr>"

text \<open>A successful download: only \<open>status_code\<close> and \<open>content\<close> are read from it.\<close>

definition firmware_response :: "bytes \<Rightarrow> response" where
  "firmware_response bs = \<lparr>status_code = 200, text' = [], content = bs, json_body = None\<rparr>"

definition test_world :: "(event list \<Rightarrow> request \<Rightarrow> net_reply) \<Rightarrow> world" where
  "test_world gw =
     \<lparr>environ = [''FIRMWARE_SERVER'' \<mapsto> ''http://gw'', ''FIRMWARE_PATH'' \<mapsto> ''/fw''],
      gateway = gw, writable = (\<lambda>path. True), files = Map.empty, trace = []\<rparr>"

text \<open>
  The test world with a gateway that serves a status script for the job
  \<open>abc123\<close> and answers every other call with a two-byte firmware.
\<close>

definition polling_world :: "pyval list \<Rightarrow> world" where
  "polling_world script =
     scripted_world (test_world (always (Http (firmware_response [0x46, 0x57])))) ''abc123'' script"

section \<open>Basic facts\<close>

lemma emit_simps [simp]:
  "trace (emit e w) = trace w @ [e]" "environ (emit e w) = environ w"
  "gateway (emit e w) = gateway w" "writable (emit e w) = writable w"
  "files (emit e w) = files w"
  by (simp_all add: emit_def)

lemma emit_as_update: "emit e w = w\<lparr>trace := trace w @ [e]\<rparr>"
  by (simp add: emit_def)

lemma url_trace_simps [simp]:
  "status_url (w\<lparr>trace := t\<rparr>) g = status_url w g"
  "download_url (w\<lparr>trace := t\<rparr>) g = download_url w g"
  "save_path (w\<lparr>trace := t\<rparr>) g = save_path w g"
  "create_url (w\<lparr>trace := t\<rparr>) = create_url w"
  by (simp_all add: status_url_def download_url_def save_path_def create_url_def)

lemma status_download_url_neq [simp]:
  "status_url w g \<noteq> download_url w g" "download_url w g \<noteq> status_url w g"
  by (simp_all add: status_url_def download_url_def)

lemma py_eq_int_2_3: "py_eq_int v 2 \<Longrightarrow> \<not> py_eq_int v 3"
  by (cases v) (auto split: if_splits)

lemma req_gen_status_unfold:
  "req_gen_status g w =
     (status_result (gateway w (trace w) (GET (status_url w g))),
      w\<lparr>trace := trace w @ Call (GET (status_url w g)) (gateway w (trace w) (GET (status_url w g)))
                  # status_log_events (gateway w (trace w) (GET (status_url w g)))\<rparr>)"
  by (simp add: req_gen_status_def requests_call_def status_result_def status_log_events_def
      emit_as_update split: net_reply.splits)

lemma status_observations_simps [simp]:
  "status_observations w g [] = []"
  "status_observations w g (e # es) = observed (GET (status_url w g)) e @ status_observations w g es"
  "status_observations w g (es @ es') = status_observations w g es @ status_observations w g es'"
  "status_observations (w\<lparr>trace := t\<rparr>) g es = status_observations w g es"
  by (simp_all add: status_observations_def)

lemma status_log_events_simps [simp]:
  "filter is_file_write (status_log_events rp) = []"
  "filter (is_call_to rq) (status_log_events rp) = []"
  "status_observations w g (status_log_events rp) = []"
  by (simp_all add: status_log_events_def split: net_reply.splits)

lemma get_firmware_loop_trace:
  assumes "get_firmware_loop g w = Some y"
  shows "\<exists>evs. snd y = w\<lparr>trace := trace w @ evs\<rparr>
           \<and> filter is_file_write evs = []
           \<and> filter (is_call_to (GET (download_url w g))) evs = []
           \<and> length (filter (is_status 2) (status_observations w g evs))
               = (if fst y = Inr True then 1 else 0)
           \<and> length (filter (is_status 3) (status_observations w g evs))
               = (if fst y = Inr False then 1 else 0)"
  using assms
proof (induction g w y rule: get_firmware_loop.raw_induct[rotated, consumes 1])
  case (1 loop g w y)
  define rp where "rp = gateway (time_sleep 5 w) (trace (time_sleep 5 w)) (GET (status_url (time_sleep 5 w) g))"
  define pre where "pre = Sleep 5 # Call (GET (status_url w g)) rp # status_log_events rp"
  define w1 where "w1 = w\<lparr>trace := trace w @ pre\<rparr>"
  have st: "req_gen_status g (time_sleep 5 w) = (status_result rp, w1)"
    unfolding req_gen_status_unfold rp_def w1_def pre_def
    by (simp add: time_sleep_def emit_as_update)
  have obs: "status_observations w g pre = [status_result rp]"
    by (simp add: pre_def)
  have nw: "filter is_file_write pre = []" "filter (is_call_to (GET (download_url w g))) pre = []"
    by (simp_all add: pre_def)
  show ?case
  proof (cases "status_result rp")
    case (Inl e)
    with 1(2) st have "y = (Inl e, w1)" by simp
    then show ?thesis using obs nw Inl by (intro exI[of _ pre]) (simp add: w1_def)
  next
    case (Inr v)
    show ?thesis
    proof (cases "py_eq_int v 3")
      case True
      with 1(2) st Inr have y: "y = (Inr False, emit (Log_error (Firmware_failed g)) w1)" by simp
      have "\<not> py_eq_int v 2" using True py_eq_int_2_3 by blast
      then show ?thesis using obs nw Inr True y
        by (intro exI[of _ "pre @ [Log_error (Firmware_failed g)]"]) (simp add: w1_def emit_as_update)
    next
      case False
      show ?thesis
      proof (cases "py_eq_int v 2")
        case True
        with 1(2) st Inr False
        have y: "y = (Inr True, emit (Log_success (Firmware_succeeded g)) w1)" by simp
        then show ?thesis using obs nw Inr True False
          by (intro exI[of _ "pre @ [Log_success (Firmware_succeeded g)]"]) (simp add: w1_def emit_as_update)
      next
        case F2: False
        with 1(2) st Inr False have "loop g w1 = Some y" by simp
        from 1(1)[OF this] obtain evs where
          evs: "snd y = w1\<lparr>trace := trace w1 @ evs\<rparr>"
            "filter is_file_write evs = []"
            "filter (is_call_to (GET (download_url w1 g))) evs = []"
            "length (filter (is_status 2) (status_observations w1 g evs)) = (if fst y = Inr True then 1 else 0)"
            "length (filter (is_status 3) (status_observations w1 g evs)) = (if fst y = Inr False then 1 else 0)"
          by blast
        then show ?thesis using obs nw Inr False F2
          by (intro exI[of _ "pre @ evs"]) (simp add: w1_def)
      qed
    qed
  qed
qed


lemma scripted_world_simps [simp]:
  "environ (scripted_world w g xs) = environ w"
  "writable (scripted_world w g xs) = writable w"
  "files (scripted_world w g xs) = files w"
  "trace (scripted_world w g xs) = []"
  "gateway (scripted_world w g xs) = scripted_gateway (status_url w g) xs (gateway w)"
  "status_url (scripted_world w g xs) g' = status_url w g'"
  "download_url (scripted_world w g xs) g' = download_url w g'"
  "save_path (scripted_world w g xs) g' = save_path w g'"
  by (simp_all add: scripted_world_def status_url_def download_url_def save_path_def)

lemma status_result_status_response [simp]:
  "status_result (Http (status_response st)) = Inr st"
  "status_log_events (Http (status_response st)) = []"
  by (simp_all add: status_result_def status_response_def json_field2_def res_json_def
      status_log_events_def)

lemma timeline_simps [simp]:
  "timeline [] = []"
  "timeline (e # es) = sleep_or_request e @ timeline es"
  "timeline (es @ es') = timeline es @ timeline es'"
  by (simp_all add: timeline_def)

lemma req_download_firmware_fault:
  assumes "gateway w (trace w) (GET (download_url w g)) = Transport_fault"
  shows "req_download_firmware g w =
           (Inl ConnectionError,
            w\<lparr>trace := trace w @ [Call (GET (download_url w g)) Transport_fault]\<rparr>)"
  using assms by (simp add: req_download_firmware_def requests_call_def emit_as_update)

lemma req_download_firmware_not_200:
  assumes "gateway w (trace w) (GET (download_url w g)) = Http res" and "status_code res \<noteq> 200"
  shows "req_download_firmware g w =
           (Inr None,
            w\<lparr>trace := trace w @ [Call (GET (download_url w g)) (Http res),
                                   Log_error (Download_failed (text' res))]\<rparr>)"
  using assms by (simp add: req_download_firmware_def requests_call_def emit_as_update)

lemma req_download_firmware_not_writable:
  assumes "gateway w (trace w) (GET (download_url w g)) = Http res" and "status_code res = 200"
    and "\<not> writable w (save_path w g)"
  shows "req_download_firmware g w =
           (Inl OSError, w\<lparr>trace := trace w @ [Call (GET (download_url w g)) (Http res)]\<rparr>)"
  using assms
  by (simp add: req_download_firmware_def requests_call_def emit_as_update write_file_def
      save_path_def)

lemma req_download_firmware_written:
  assumes "gateway w (trace w) (GET (download_url w g)) = Http res" and "status_code res = 200"
    and "writable w (save_path w g)"
  shows "req_download_firmware g w =
           (Inr (Some (save_path w g)),
            w\<lparr>files := (files w)(save_path w g \<mapsto> content res),
              trace := trace w @ [Call (GET (download_url w g)) (Http res),
                                   File_write (save_path w g) (content res)]\<rparr>)"
  using assms
  by (simp add: req_download_firmware_def requests_call_def emit_as_update write_file_def
      save_path_def)

lemma req_download_firmware_trace:
  "\<exists>evs. trace (snd (req_download_firmware g w)) =
           trace w @ Call (GET (download_url w g)) (gateway w (trace w) (GET (download_url w g))) # evs
       \<and> length (filter is_file_write evs) \<le> 1
       \<and> (\<forall>rq. filter (is_call_to rq) evs = [])
       \<and> timeline evs = []
       \<and> (\<forall>w' g'. status_observations w' g' evs = [])"
proof (cases "gateway w (trace w) (GET (download_url w g))")
  case Transport_fault
  then show ?thesis by (simp add: req_download_firmware_fault)
next
  case (Http res)
  show ?thesis
  proof (cases "status_code res = 200")
    case False
    with Http show ?thesis by (simp add: req_download_firmware_not_200)
  next
    case True
    with Http show ?thesis
      by (cases "writable w (save_path w g)")
        (simp_all add: req_download_firmware_not_writable req_download_firmware_written)
  qed
qed

lemma get_firmware_loop_never_returns:
  assumes "get_firmware_loop g w = Some y"
    and "\<forall>tr. \<exists>res. gateway w tr (GET (status_url w g)) = Http res \<and> status_code res \<noteq> 200"
  shows False
  using assms
proof (induction g w y rule: get_firmware_loop.raw_induct[rotated, consumes 1])
  case (1 loop g w y)
  define tr where "tr = trace (time_sleep 5 w)"
  from 1(3) obtain res where
    res: "gateway w tr (GET (status_url w g)) = Http res" "status_code res \<noteq> 200"
    by blast
  define w1 where
    "w1 = w\<lparr>trace := trace w @ [Sleep 5, Call (GET (status_url w g)) (Http res),
                                  Log_error (Status_failed (text' res))]\<rparr>"
  have "req_gen_status g (time_sleep 5 w) = (Inr PNone, w1)"
    unfolding req_gen_status_unfold using res
    by (simp add: tr_def w1_def time_sleep_def emit_as_update status_result_def
        status_log_events_def status_url_def)
  with 1(2) have "loop g w1 = Some y" by simp
  moreover have "\<forall>tr. \<exists>res. gateway w1 tr (GET (status_url w1 g)) = Http res \<and> status_code res \<noteq> 200"
    using 1(3) by (simp add: w1_def)
  ultimately show False by (rule 1(1))
qed


lemma req_gen_firmware_not_200:
  assumes "gateway w (trace w) (POST (create_url w) d) = Http res" and "status_code res \<noteq> 200"
  shows "req_gen_firmware d w =
           (Inr PNone,
            w\<lparr>trace := trace w @ [Call (POST (create_url w) d) (Http res),
                                   Log_error (Create_failed (text' res))]\<rparr>)"
  using assms by (simp add: req_gen_firmware_def requests_call_def emit_as_update)

lemma test_world_simps [simp]:
  "environ (test_world gw) = [''FIRMWARE_SERVER'' \<mapsto> ''http://gw'', ''FIRMWARE_PATH'' \<mapsto> ''/fw'']"
  "gateway (test_world gw) = gw"
  "writable (test_world gw) path"
  "files (test_world gw) = Map.empty"
  "trace (test_world gw) = []"
  by (simp_all add: test_world_def)

lemma test_world_urls [simp]:
  "create_url (test_world gw) = ''http://gw/api/v1/asr''"
  "status_url (test_world gw) g = ''http://gw/api/v1/firmware/status?prj_name='' @ g"
  "download_url (test_world gw) g = ''http://gw/api/v1/firmware/download?prj_name='' @ g"
  "save_path (test_world gw) g = ''/fw/'' @ g @ ''.bin''"
  by (simp_all add: create_url_def status_url_def download_url_def save_path_def)

lemma get_firmware_step:
  assumes "req_gen_status g (time_sleep 5 w) = (Inr st, w1)"
  shows "get_firmware_loop g w =
           (if py_eq_int st 3 then Some (Inr False, emit (Log_error (Firmware_failed g)) w1)
            else if py_eq_int st 2 then Some (Inr True, emit (Log_success (Firmware_succeeded g)) w1)
            else get_firmware_loop g w1)"
  using assms by (subst get_firmware_loop.simps) simp

section \<open>The trigger handler\<close>

text \<open>
  Claim C1. A trigger whose create call gets a non-success response should return a
  null JobId and schedule no poller. Run on a gateway that answers the create call
  with 500: \<open>post_asr\<close> returns \<open>{"id": None}\<close> in the success envelope, and its
  task list holds \<open>get_firmware(None)\<close>, because \<open>add_task\<close> is reached whatever
  \<open>req_gen_firmware\<close> returned.
\<close>

theorem post_asr_failed_create_schedules_poller:
  "post_asr ''hi'' [] (test_world (always (Http (empty_response 500)))) =
     (Inr (\<lparr>rm_status = 200, rm_message = ''success'', rm_data = PDict [(''id'', PNone)]\<rparr>,
           [Get_firmware_task PNone]),
      (test_world (always (Http (empty_response 500))))\<lparr>trace :=
         [Call (POST ''http://gw/api/v1/asr'' (PDict [(''wakeKeyword'', PStr ''hi'')]))
            (Http (empty_response 500)),
          Log_error (Create_failed [])]\<rparr>)"
  by (simp add: post_asr_def req_gen_firmware_not_200 always_def empty_response_def
      ResponseModel_def add_task_def)

section \<open>The poll loop on scripted gateways\<close>

lemma scripted_1112_loop:
  "get_firmware_loop g (scripted_world w g [PInt 1, PInt 1, PInt 1, PInt 2]) =
     Some (Inr True,
       (scripted_world w g [PInt 1, PInt 1, PInt 1, PInt 2])\<lparr>trace :=
          [Sleep 5, Call (GET (status_url w g)) (Http (status_response (PInt 1))),
           Sleep 5, Call (GET (status_url w g)) (Http (status_response (PInt 1))),
           Sleep 5, Call (GET (status_url w g)) (Http (status_response (PInt 1))),
           Sleep 5, Call (GET (status_url w g)) (Http (status_response (PInt 2))),
           Log_success (Firmware_succeeded g)]\<rparr>)"
  by (simp add: get_firmware_loop.simps req_gen_status_unfold time_sleep_def
      emit_as_update scripted_gateway_def)


text \<open>
  Claim C6. Against a gateway that serves the status sequence 1, 1, 1, 2 the poll
  loop returns, and the sleeps and requests of its run are: four times a sleep of
  5 seconds followed by a status call, then one download call. This holds in
  every world \<open>w\<close> and for every job \<open>g\<close>, whatever the gateway answers to the
  download.
\<close>

theorem get_firmware_script_1112:
  "\<exists>r w'. get_firmware g (scripted_world w g [PInt 1, PInt 1, PInt 1, PInt 2]) = Some (r, w')
     \<and> timeline (trace w') =
         [Inl 5, Inr (GET (status_url w g)), Inl 5, Inr (GET (status_url w g)),
          Inl 5, Inr (GET (status_url w g)), Inl 5, Inr (GET (status_url w g)),
          Inr (GET (download_url w g))]
     \<and> length (filter (is_call_to (GET (status_url w g))) (trace w')) = 4
     \<and> length (filter (is_call_to (GET (download_url w g))) (trace w')) = 1"
proof -
  define w5 where
    "w5 = (scripted_world w g [PInt 1, PInt 1, PInt 1, PInt 2])\<lparr>trace :=
          [Sleep 5, Call (GET (status_url w g)) (Http (status_response (PInt 1))),
           Sleep 5, Call (GET (status_url w g)) (Http (status_response (PInt 1))),
           Sleep 5, Call (GET (status_url w g)) (Http (status_response (PInt 1))),
           Sleep 5, Call (GET (status_url w g)) (Http (status_response (PInt 2))),
           Log_success (Firmware_succeeded g)]\<rparr>"
  have run: "get_firmware g (scripted_world w g [PInt 1, PInt 1, PInt 1, PInt 2]) =
               Some (req_download_firmware g w5)"
    by (simp add: get_firmware_def scripted_1112_loop w5_def)
  obtain evs where evs:
    "trace (snd (req_download_firmware g w5)) =
       trace w5 @ Call (GET (download_url w5 g)) (gateway w5 (trace w5) (GET (download_url w5 g))) # evs"
    "filter (is_call_to (GET (status_url w g))) evs = []"
    "filter (is_call_to (GET (download_url w g))) evs = []"
    "timeline evs = []"
    using req_download_firmware_trace[of g w5] by blast
  have "timeline (trace (snd (req_download_firmware g w5))) =
         [Inl 5, Inr (GET (status_url w g)), Inl 5, Inr (GET (status_url w g)),
          Inl 5, Inr (GET (status_url w g)), Inl 5, Inr (GET (status_url w g)),
          Inr (GET (download_url w g))]"
    unfolding evs(1) by (simp add: evs w5_def)
  moreover have "length (filter (is_call_to (GET (status_url w g)))
                   (trace (snd (req_download_firmware g w5)))) = 4"
    unfolding evs(1) by (simp add: evs w5_def)
  moreover have "length (filter (is_call_to (GET (download_url w g)))
                   (trace (snd (req_download_firmware g w5)))) = 1"
    unfolding evs(1) by (simp add: evs w5_def)
  ultimately show ?thesis
    unfolding run by (intro exI[of _ "fst (req_download_firmware g w5)"]
        exI[of _ "snd (req_download_firmware g w5)"]) simp
qed

text \<open>
  Claim C7. Against a gateway that serves the status sequence 1, 3 the poll loop
  returns \<open>None\<close> after two status calls, each after a sleep of 5 seconds, with no
  download call, no file written and the local files as they were.
\<close>

theorem get_firmware_script_13:
  "\<exists>w'. get_firmware g (scripted_world w g [PInt 1, PInt 3]) = Some (Inr None, w')
     \<and> timeline (trace w') =
         [Inl 5, Inr (GET (status_url w g)), Inl 5, Inr (GET (status_url w g))]
     \<and> length (filter (is_call_to (GET (status_url w g))) (trace w')) = 2
     \<and> length (filter (is_call_to (GET (download_url w g))) (trace w')) = 0
     \<and> length (filter is_file_write (trace w')) = 0
     \<and> files w' = files w"
proof -
  have "get_firmware g (scripted_world w g [PInt 1, PInt 3]) =
     Some (Inr None,
       (scripted_world w g [PInt 1, PInt 3])\<lparr>trace :=
          [Sleep 5, Call (GET (status_url w g)) (Http (status_response (PInt 1))),
           Sleep 5, Call (GET (status_url w g)) (Http (status_response (PInt 3))),
           Log_error (Firmware_failed g)]\<rparr>)"
    by (simp add: get_firmware_def get_firmware_loop.simps req_gen_status_unfold time_sleep_def
        emit_as_update scripted_gateway_def)
  then show ?thesis by simp
qed

section \<open>One write per job\<close>



section \<open>Classification of a status\<close>

lemma polling_world_simps [simp]:
  "environ (polling_world xs) = [''FIRMWARE_SERVER'' \<mapsto> ''http://gw'', ''FIRMWARE_PATH'' \<mapsto> ''/fw'']"
  "trace (polling_world xs) = []"
  "files (polling_world xs) = Map.empty"
  "writable (polling_world xs) path"
  "status_url (polling_world xs) g = ''http://gw/api/v1/firmware/status?prj_name='' @ g"
  "download_url (polling_world xs) g = ''http://gw/api/v1/firmware/download?prj_name='' @ g"
  "save_path (polling_world xs) g = ''/fw/'' @ g @ ''.bin''"
  by (simp_all add: polling_world_def)

lemma polling_world_first_status:
  "req_gen_status ''abc123'' (time_sleep 5 (polling_world [st])) =
     (Inr st,
      (polling_world [st])\<lparr>trace :=
         [Sleep 5, Call (GET ''http://gw/api/v1/firmware/status?prj_name=abc123'')
                     (Http (status_response st))]\<rparr>)"
  by (simp add: req_gen_status_unfold time_sleep_def emit_as_update polling_world_def
      scripted_gateway_def)

lemma always_simps [simp]: "always rp tr rq = rp"
  by (simp add: always_def)

lemma firmware_response_simps [simp]:
  "status_code (firmware_response bs) = 200"
  "content (firmware_response bs) = bs"
  by (simp_all add: firmware_response_def)

lemma get_firmware_unfold:
  "get_firmware g w =
     (case req_gen_status g (time_sleep 5 w) of
        (Inl e, w1) \<Rightarrow> Some (Inl e, w1)
      | (Inr st, w1) \<Rightarrow>
          if py_eq_int st 3 then Some (Inr None, emit (Log_error (Firmware_failed g)) w1)
          else if py_eq_int st 2
          then Some (req_download_firmware g (emit (Log_success (Firmware_succeeded g)) w1))
          else get_firmware g w1)"
  unfolding get_firmware_def
  by (subst get_firmware_loop.simps) (simp split: prod.splits sum.splits)

lemma get_firmware_extends:
  assumes "get_firmware g w = Some (r, w')"
  shows "\<exists>evs. trace w' = trace w @ evs"
proof -
  from assms obtain y where loop: "get_firmware_loop g w = Some y"
    by (auto simp add: get_firmware_def split: option.splits)
  from get_firmware_loop_trace[OF loop] obtain evs where
    evs: "snd y = w\<lparr>trace := trace w @ evs\<rparr>"
    by blast
  show ?thesis
  proof (cases "fst y = Inr True")
    case False
    with assms loop have "w' = snd y"
      by (cases y; cases "fst y") (auto simp add: get_firmware_def)
    with evs show ?thesis by simp
  next
    case True
    with assms loop have "(r, w') = req_download_firmware g (snd y)"
      by (cases y) (auto simp add: get_firmware_def)
    then have "w' = snd (req_download_firmware g (snd y))"
      by (metis snd_conv)
    with req_download_firmware_trace[of g "snd y"] evs show ?thesis
      by auto
  qed
qed

lemma get_firmware_first_events:
  assumes "get_firmware g w = Some (r, w')"
  shows "\<exists>evs. trace w' =
           trace w @ Sleep 5
             # Call (GET (status_url w g)) (gateway w (trace w @ [Sleep 5]) (GET (status_url w g)))
             # evs"
proof -
  define rp where "rp = gateway w (trace w @ [Sleep 5]) (GET (status_url w g))"
  define pre where "pre = Sleep 5 # Call (GET (status_url w g)) rp # status_log_events rp"
  define w1 where "w1 = w\<lparr>trace := trace w @ pre\<rparr>"
  have st: "req_gen_status g (time_sleep 5 w) = (status_result rp, w1)"
    unfolding req_gen_status_unfold rp_def w1_def pre_def
    by (simp add: time_sleep_def emit_as_update status_url_def)
  have goal: "\<exists>evs. trace w' = trace w @ Sleep 5 # Call (GET (status_url w g)) rp # evs"
    if "trace w' = trace w1 @ evs'" for evs'
    using that by (simp add: w1_def pre_def)
  show ?thesis
  proof (cases "status_result rp")
    case (Inl e)
    with assms st have "w' = w1" by (simp add: get_firmware_unfold)
    then show ?thesis using goal[of "[]"] by (simp add: rp_def)
  next
    case (Inr v)
    consider "py_eq_int v 3" | "\<not> py_eq_int v 3" "py_eq_int v 2"
      | "\<not> py_eq_int v 3" "\<not> py_eq_int v 2" by blast
    then show ?thesis
    proof cases
      case 1
      with assms st Inr have "w' = emit (Log_error (Firmware_failed g)) w1"
        by (simp add: get_firmware_unfold)
      then show ?thesis using goal[of "[Log_error (Firmware_failed g)]"] by (simp add: rp_def)
    next
      case 2
      with assms st Inr
      have "(r, w') = req_download_firmware g (emit (Log_success (Firmware_succeeded g)) w1)"
        by (simp add: get_firmware_unfold)
      then have "w' = snd (req_download_firmware g (emit (Log_success (Firmware_succeeded g)) w1))"
        by (metis snd_conv)
      with req_download_firmware_trace[of g "emit (Log_success (Firmware_succeeded g)) w1"]
      obtain evs where "trace w' = trace w1 @ evs" by auto
      from goal[OF this] show ?thesis by (simp add: rp_def)
    next
      case 3
      with assms st Inr have "get_firmware g w1 = Some (r, w')"
        by (simp add: get_firmware_unfold)
      from get_firmware_extends[OF this] obtain evs where "trace w' = trace w1 @ evs" by blast
      from goal[OF this] show ?thesis by (simp add: rp_def)
    qed
  qed
qed

lemma polling_world_gateway [simp]:
  "gateway (polling_world xs) =
     scripted_gateway ''http://gw/api/v1/firmware/status?prj_name=abc123'' xs
       (always (Http (firmware_response [0x46, 0x57])))"
  by (simp add: polling_world_def)

text \<open>
  Claim C2. One iteration of the poll loop that starts in the world \<open>w\<close> and whose
  status call returned the value \<open>st\<close>. The iteration has added to the trace a
  sleep of 5 seconds, the status call with its reply, and the log line of a
  non-200 reply if there was one; nothing else has changed.

  If \<open>st\<close> is 2, the loop is left with \<open>gen_result = True\<close> and \<open>get_firmware\<close>
  returns: after the success log line it has made exactly one call of the
  download URL, no further sleep or call, and at most one file write; when the
  download reply is a 200 response and the file can be opened, the result is the
  path \<open>FIRMWARE_PATH/g.bin\<close>, the one file write puts the reply's content there,
  and the local files are those of \<open>w\<close> with that content at the path.

  If \<open>st\<close> is 3, the loop is left and \<open>get_firmware\<close> returns \<open>None\<close>; the trace
  ends with the failure log line, so there is no download call and no file write,
  and the local files are those of \<open>w\<close>.

  For every other value the loop is not left: \<open>get_firmware\<close> goes on as it does
  from the world after this iteration, and every run that returns continues the
  trace with another sleep of 5 seconds followed by another status call.

  Equality is Python's \<open>==\<close>, so the float 2.0 counts as 2.
\<close>

theorem get_firmware_status_classification:
  fixes w :: world and g :: string
  defines "rp \<equiv> gateway w (trace w @ [Sleep 5]) (GET (status_url w g))"
  defines "polled \<equiv> trace w @ Sleep 5 # Call (GET (status_url w g)) rp # status_log_events rp"
  defines "dl \<equiv> gateway w (polled @ [Log_success (Firmware_succeeded g)]) (GET (download_url w g))"
  assumes "req_gen_status g (time_sleep 5 w) = (Inr st, w1)"
  shows "w1 = w\<lparr>trace := polled\<rparr>
       \<and> (py_eq_int st 2 \<longrightarrow>
            get_firmware_loop g w = Some (Inr True, emit (Log_success (Firmware_succeeded g)) w1)
          \<and> get_firmware g w =
              Some (req_download_firmware g (emit (Log_success (Firmware_succeeded g)) w1))
          \<and> (\<exists>r w' evs. get_firmware g w = Some (r, w')
                \<and> trace w' = polled @ Log_success (Firmware_succeeded g)
                                # Call (GET (download_url w g)) dl # evs
                \<and> timeline evs = []
                \<and> length (filter is_file_write evs) \<le> 1
                \<and> (\<forall>res. dl = Http res \<and> status_code res = 200 \<and> writable w (save_path w g) \<longrightarrow>
                      r = Inr (Some (save_path w g))
                    \<and> evs = [File_write (save_path w g) (content res)]
                    \<and> files w' = (files w)(save_path w g \<mapsto> content res))))
       \<and> (py_eq_int st 3 \<longrightarrow>
            get_firmware_loop g w = Some (Inr False, emit (Log_error (Firmware_failed g)) w1)
          \<and> get_firmware g w = Some (Inr None, emit (Log_error (Firmware_failed g)) w1)
          \<and> get_firmware g w =
              Some (Inr None, w\<lparr>trace := polled @ [Log_error (Firmware_failed g)]\<rparr>))
       \<and> (\<not> py_eq_int st 2 \<and> \<not> py_eq_int st 3 \<longrightarrow>
            get_firmware_loop g w = get_firmware_loop g w1
          \<and> get_firmware g w = get_firmware g w1
          \<and> (\<forall>r w'. get_firmware g w = Some (r, w') \<longrightarrow>
                (\<exists>evs. trace w' = polled @ Sleep 5
                          # Call (GET (status_url w g))
                              (gateway w (polled @ [Sleep 5]) (GET (status_url w g)))
                          # evs)))"
proof -
  have unf: "req_gen_status g (time_sleep 5 w) = (status_result rp, w\<lparr>trace := polled\<rparr>)"
    unfolding req_gen_status_unfold rp_def polled_def
    by (simp add: time_sleep_def emit_as_update status_url_def)
  with assms(4) have w1: "w1 = w\<lparr>trace := polled\<rparr>" by simp
  note step = get_firmware_step[OF assms(4)]
  have two: "\<exists>r w' evs. get_firmware g w = Some (r, w')
                \<and> trace w' = polled @ Log_success (Firmware_succeeded g)
                                # Call (GET (download_url w g)) dl # evs
                \<and> timeline evs = []
                \<and> length (filter is_file_write evs) \<le> 1
                \<and> (\<forall>res. dl = Http res \<and> status_code res = 200 \<and> writable w (save_path w g) \<longrightarrow>
                      r = Inr (Some (save_path w g))
                    \<and> evs = [File_write (save_path w g) (content res)]
                    \<and> files w' = (files w)(save_path w g \<mapsto> content res))"
    if st2: "py_eq_int st 2"
  proof -
    define w2 where "w2 = emit (Log_success (Firmware_succeeded g)) w1"
    have w2: "trace w2 = polled @ [Log_success (Firmware_succeeded g)]" "gateway w2 = gateway w"
      "download_url w2 g = download_url w g" "save_path w2 g = save_path w g"
      "writable w2 = writable w" "files w2 = files w"
      by (simp_all add: w2_def w1 download_url_def save_path_def)
    have dl: "gateway w2 (trace w2) (GET (download_url w2 g)) = dl"
      by (simp add: w2 dl_def)
    from st2 step py_eq_int_2_3[of st]
    have run: "get_firmware g w = Some (req_download_firmware g w2)"
      by (simp add: get_firmware_def w2_def)
    from req_download_firmware_trace[of g w2] obtain evs where evs:
      "trace (snd (req_download_firmware g w2)) =
         trace w2 @ Call (GET (download_url w2 g)) (gateway w2 (trace w2) (GET (download_url w2 g))) # evs"
      "length (filter is_file_write evs) \<le> 1" "timeline evs = []"
      by blast
    have persist: "fst (req_download_firmware g w2) = Inr (Some (save_path w g))
                    \<and> evs = [File_write (save_path w g) (content res)]
                    \<and> files (snd (req_download_firmware g w2)) = (files w)(save_path w g \<mapsto> content res)"
      if "dl = Http res" "status_code res = 200" "writable w (save_path w g)" for res
      using req_download_firmware_written[of w2 g res] that evs(1) dl w2 by simp
    show ?thesis
      unfolding run
      using evs persist dl w2
      by (intro exI[of _ "fst (req_download_firmware g w2)"]
          exI[of _ "snd (req_download_firmware g w2)"] exI[of _ evs]) simp
  qed
  have other: "\<exists>evs. trace w' = polled @ Sleep 5
                          # Call (GET (status_url w g))
                              (gateway w (polled @ [Sleep 5]) (GET (status_url w g)))
                          # evs"
    if "\<not> py_eq_int st 2" "\<not> py_eq_int st 3" "get_firmware g w = Some (r, w')" for r w'
  proof -
    from that step have "get_firmware g w1 = Some (r, w')"
      by (simp add: get_firmware_def)
    from get_firmware_first_events[OF this] show ?thesis
      by (simp add: w1 status_url_def)
  qed
  show ?thesis
    using w1 step py_eq_int_2_3[of st] two other
    by (auto simp add: get_firmware_def emit_as_update)
qed

theorem get_firmware_status_classification_witness:
  "req_gen_status ''abc123'' (time_sleep 5 (polling_world [PInt 2])) =
     (Inr (PInt 2), snd (req_gen_status ''abc123'' (time_sleep 5 (polling_world [PInt 2]))))
   \<and> py_eq_int (PInt 2) 2
   \<and> (\<exists>w'. get_firmware ''abc123'' (polling_world [PInt 2]) = Some (Inr (Some ''/fw/abc123.bin''), w')
         \<and> trace w' =
             [Sleep 5,
              Call (GET ''http://gw/api/v1/firmware/status?prj_name=abc123'')
                (Http (status_response (PInt 2))),
              Log_success (Firmware_succeeded ''abc123''),
              Call (GET ''http://gw/api/v1/firmware/download?prj_name=abc123'')
                (Http (firmware_response [0x46, 0x57])),
              File_write ''/fw/abc123.bin'' [0x46, 0x57]]
         \<and> files w' = [''/fw/abc123.bin'' \<mapsto> [0x46, 0x57]])
   \<and> req_gen_status ''abc123'' (time_sleep 5 (polling_world [PInt 3])) =
     (Inr (PInt 3), snd (req_gen_status ''abc123'' (time_sleep 5 (polling_world [PInt 3]))))
   \<and> py_eq_int (PInt 3) 3
   \<and> get_firmware ''abc123'' (polling_world [PInt 3]) =
       Some (Inr None,
         (polling_world [PInt 3])\<lparr>trace :=
            [Sleep 5,
             Call (GET ''http://gw/api/v1/firmware/status?prj_name=abc123'')
               (Http (status_response (PInt 3))),
             Log_error (Firmware_failed ''abc123'')]\<rparr>)
   \<and> req_gen_status ''abc123'' (time_sleep 5 (polling_world [PInt 1])) =
     (Inr (PInt 1), snd (req_gen_status ''abc123'' (time_sleep 5 (polling_world [PInt 1]))))
   \<and> \<not> py_eq_int (PInt 1) 2 \<and> \<not> py_eq_int (PInt 1) 3
   \<and> get_firmware ''abc123'' (polling_world [PInt 1]) =
       get_firmware ''abc123'' ((polling_world [PInt 1])\<lparr>trace :=
            [Sleep 5,
             Call (GET ''http://gw/api/v1/firmware/status?prj_name=abc123'')
               (Http (status_response (PInt 1)))]\<rparr>)"
proof -
  have h: "req_gen_status ''abc123'' (time_sleep 5 (polling_world [st])) =
     (Inr st, snd (req_gen_status ''abc123'' (time_sleep 5 (polling_world [st]))))" for st
    by (simp add: polling_world_first_status)
  have two: "\<exists>w'. get_firmware ''abc123'' (polling_world [PInt 2]) = Some (Inr (Some ''/fw/abc123.bin''), w')
         \<and> trace w' =
             [Sleep 5,
              Call (GET ''http://gw/api/v1/firmware/status?prj_name=abc123'')
                (Http (status_response (PInt 2))),
              Log_success (Firmware_succeeded ''abc123''),
              Call (GET ''http://gw/api/v1/firmware/download?prj_name=abc123'')
                (Http (firmware_response [0x46, 0x57])),
              File_write ''/fw/abc123.bin'' [0x46, 0x57]]
         \<and> files w' = [''/fw/abc123.bin'' \<mapsto> [0x46, 0x57]]"
    using get_firmware_status_classification[OF h[of "PInt 2"]]
    apply (simp (no_asm_use) add: scripted_gateway_def)
    by blast
  have three: "get_firmware ''abc123'' (polling_world [PInt 3]) =
       Some (Inr None,
         (polling_world [PInt 3])\<lparr>trace :=
            [Sleep 5,
             Call (GET ''http://gw/api/v1/firmware/status?prj_name=abc123'')
               (Http (status_response (PInt 3))),
             Log_error (Firmware_failed ''abc123'')]\<rparr>)"
    using get_firmware_status_classification[OF h[of "PInt 3"]]
    by (simp add: scripted_gateway_def)
  have one: "get_firmware ''abc123'' (polling_world [PInt 1]) =
       get_firmware ''abc123'' ((polling_world [PInt 1])\<lparr>trace :=
            [Sleep 5,
             Call (GET ''http://gw/api/v1/firmware/status?prj_name=abc123'')
               (Http (status_response (PInt 1)))]\<rparr>)"
    using get_firmware_status_classification[OF h[of "PInt 1"]]
    by (simp add: scripted_gateway_def)
  show ?thesis
    using h two three one by simp
qed

section \<open>Responses without the expected keys\<close>

lemma subscript_without_key:
  assumes "\<not> has_key v k"
  shows "subscript v k = Inl (KeyError k) \<or> subscript v k = Inl TypeError"
proof (cases v)
  case (PDict items)
  with assms have "map_of items k = None" by (simp add: map_of_eq_None_iff)
  with PDict show ?thesis by simp
qed simp_all

lemma json_field2_without_keys:
  assumes "json_body res = Some v" and "\<not> has_keys v k1 k2"
  shows "json_field2 res k1 k2 = Inl (KeyError k1) \<or> json_field2 res k1 k2 = Inl (KeyError k2)
       \<or> json_field2 res k1 k2 = Inl TypeError"
proof (cases "has_key v k1")
  case False
  from subscript_without_key[OF this] assms(1) show ?thesis
    by (auto simp add: json_field2_def res_json_def)
next
  case True
  show ?thesis
  proof (cases "subscript v k1")
    case (Inl e)
    with True show ?thesis by (cases v) (auto split: option.splits simp add: map_of_eq_None_iff)
  next
    case (Inr d)
    with True assms(2) have "\<not> has_key d k2" by (simp add: has_keys_def)
    from subscript_without_key[OF this] Inr assms(1) show ?thesis
      by (auto simp add: json_field2_def res_json_def)
  qed
qed

lemma req_gen_firmware_200:
  assumes "gateway w (trace w) (POST (create_url w) d) = Http res" and "status_code res = 200"
  shows "req_gen_firmware d w =
           (json_field2 res ''data'' ''id'',
            w\<lparr>trace := trace w @ [Call (POST (create_url w) d) (Http res)]\<rparr>)"
  using assms by (simp add: req_gen_firmware_def requests_call_def emit_as_update)

lemma empty_object_response_simps [simp]:
  "status_code (empty_object_response c) = c"
  "json_body (empty_object_response c) = Some (PDict [])"
  "text' (empty_object_response c) = ''{}''"
  by (simp_all add: empty_object_response_def)

lemma empty_response_simps [simp]:
  "status_code (empty_response c) = c"
  "json_body (empty_response c) = None"
  "text' (empty_response c) = []"
  "content (empty_response c) = []"
  by (simp_all add: empty_response_def)

text \<open>
  Claim C9, as the code has it. The error branch of \<open>req_gen_firmware\<close> and of
  \<open>req_gen_status\<close> is taken for every status code other than 200, the other 2xx
  codes included, and returns \<open>None\<close> whatever the body is. For a response with
  status code 200 whose decoded body has no dict under \<open>data\<close> with the key \<open>id\<close>
  (for the status call: \<open>status\<close>), the function raises \<open>KeyError\<close> or
  \<open>TypeError\<close> and returns nothing.
\<close>

theorem malformed_200_response_raises:
  "(\<forall>res v. gateway w (trace w) (POST (create_url w) d) = Http res \<and> status_code res = 200
        \<and> json_body res = Some v \<and> \<not> has_keys v ''data'' ''id'' \<longrightarrow>
      fst (req_gen_firmware d w) = Inl (KeyError ''data'')
      \<or> fst (req_gen_firmware d w) = Inl (KeyError ''id'')
      \<or> fst (req_gen_firmware d w) = Inl TypeError)
   \<and> (\<forall>res v. gateway w (trace w) (GET (status_url w g)) = Http res \<and> status_code res = 200
        \<and> json_body res = Some v \<and> \<not> has_keys v ''data'' ''status'' \<longrightarrow>
      fst (req_gen_status g w) = Inl (KeyError ''data'')
      \<or> fst (req_gen_status g w) = Inl (KeyError ''status'')
      \<or> fst (req_gen_status g w) = Inl TypeError)
   \<and> (\<forall>res. gateway w (trace w) (POST (create_url w) d) = Http res \<and> status_code res \<noteq> 200 \<longrightarrow>
      fst (req_gen_firmware d w) = Inr PNone)
   \<and> (\<forall>res. gateway w (trace w) (GET (status_url w g)) = Http res \<and> status_code res \<noteq> 200 \<longrightarrow>
      fst (req_gen_status g w) = Inr PNone)"
proof (intro conjI allI impI)
  fix res v
  assume "gateway w (trace w) (POST (create_url w) d) = Http res \<and> status_code res = 200
        \<and> json_body res = Some v \<and> \<not> has_keys v ''data'' ''id''"
  then show "fst (req_gen_firmware d w) = Inl (KeyError ''data'')
      \<or> fst (req_gen_firmware d w) = Inl (KeyError ''id'')
      \<or> fst (req_gen_firmware d w) = Inl TypeError"
    using json_field2_without_keys[of res v "''data''" "''id''"]
    by (simp add: req_gen_firmware_200)
next
  fix res v
  assume "gateway w (trace w) (GET (status_url w g)) = Http res \<and> status_code res = 200
        \<and> json_body res = Some v \<and> \<not> has_keys v ''data'' ''status''"
  then show "fst (req_gen_status g w) = Inl (KeyError ''data'')
      \<or> fst (req_gen_status g w) = Inl (KeyError ''status'')
      \<or> fst (req_gen_status g w) = Inl TypeError"
    using json_field2_without_keys[of res v "''data''" "''status''"]
    by (simp add: req_gen_status_unfold status_result_def)
next
  fix res
  assume "gateway w (trace w) (POST (create_url w) d) = Http res \<and> status_code res \<noteq> 200"
  then show "fst (req_gen_firmware d w) = Inr PNone"
    by (simp add: req_gen_firmware_not_200)
next
  fix res
  assume "gateway w (trace w) (GET (status_url w g)) = Http res \<and> status_code res \<noteq> 200"
  then show "fst (req_gen_status g w) = Inr PNone"
    by (simp add: req_gen_status_unfold status_result_def)
qed

theorem malformed_200_response_raises_witness:
  "gateway (test_world (always (Http (empty_object_response 200)))) []
      (POST ''http://gw/api/v1/asr'' (PDict [(''wakeKeyword'', PStr ''hi'')]))
     = Http (empty_object_response 200)
   \<and> gateway (test_world (always (Http (empty_object_response 200)))) []
      (GET ''http://gw/api/v1/firmware/status?prj_name=abc123'')
     = Http (empty_object_response 200)
   \<and> status_code (empty_object_response 200) = 200
   \<and> json_body (empty_object_response 200) = Some (PDict [])
   \<and> \<not> has_keys (PDict []) ''data'' ''id'' \<and> \<not> has_keys (PDict []) ''data'' ''status''
   \<and> fst (req_gen_firmware (PDict [(''wakeKeyword'', PStr ''hi'')])
          (test_world (always (Http (empty_object_response 200))))) = Inl (KeyError ''data'')
   \<and> fst (req_gen_status ''abc123''
          (test_world (always (Http (empty_object_response 200))))) = Inl (KeyError ''data'')
   \<and> status_code (empty_object_response 201) \<noteq> 200
   \<and> fst (req_gen_firmware (PDict [(''wakeKeyword'', PStr ''hi'')])
          (test_world (always (Http (empty_object_response 201))))) = Inr PNone
   \<and> fst (req_gen_status ''abc123''
          (test_world (always (Http (empty_object_response 201))))) = Inr PNone"
  using malformed_200_response_raises[of "test_world (always (Http (empty_object_response 200)))"
      "PDict [(''wakeKeyword'', PStr ''hi'')]" "''abc123''"]
    malformed_200_response_raises[of "test_world (always (Http (empty_object_response 201)))"
      "PDict [(''wakeKeyword'', PStr ''hi'')]" "''abc123''"]
  by (simp add: has_keys_def req_gen_firmware_200 req_gen_status_unfold status_result_def
      json_field2_def res_json_def)

text \<open>
  A response with status code 201 and the body \<open>{}\<close> is a 2xx response without the
  keys; both adapters return \<open>None\<close> for it and raise nothing.
\<close>

theorem malformed_2xx_response_counterexample:
  "200 \<le> status_code (empty_object_response 201) \<and> status_code (empty_object_response 201) < 300
   \<and> json_body (empty_object_response 201) = Some (PDict [])
   \<and> \<not> has_keys (PDict []) ''data'' ''id'' \<and> \<not> has_keys (PDict []) ''data'' ''status''
   \<and> gateway (test_world (always (Http (empty_object_response 201))))
        (trace (test_world (always (Http (empty_object_response 201)))))
        (POST (create_url (test_world (always (Http (empty_object_response 201)))))
           (PDict [(''wakeKeyword'', PStr ''hi'')]))
       = Http (empty_object_response 201)
   \<and> gateway (test_world (always (Http (empty_object_response 201))))
        (trace (test_world (always (Http (empty_object_response 201)))))
        (GET (status_url (test_world (always (Http (empty_object_response 201)))) ''abc123''))
       = Http (empty_object_response 201)
   \<and> fst (req_gen_firmware (PDict [(''wakeKeyword'', PStr ''hi'')])
          (test_world (always (Http (empty_object_response 201))))) = Inr PNone
   \<and> fst (req_gen_status ''abc123''
          (test_world (always (Http (empty_object_response 201))))) = Inr PNone"
  by (simp add: has_keys_def req_gen_firmware_not_200 req_gen_status_unfold status_result_def)

section \<open>The status handler\<close>

lemma get_asr_status_unfold:
  "get_asr_status p w =
     (case status_result (gateway w (trace w) (GET (status_url w p))) of
        Inl e \<Rightarrow> Inl e
      | Inr st \<Rightarrow> Inr (ResponseModel st),
      snd (req_gen_status p w))"
  by (simp add: get_asr_status_def req_gen_status_unfold split: sum.splits)

text \<open>
  Claim C4, as the code has it. For every job id, \<open>get_asr_status\<close> makes one
  status call to the gateway and nothing else: its result is a function of the
  reply to that call alone, and no file changes. When the call suffers a
  transport fault, the handler fails with the \<open>ConnectionError\<close> that \<open>requests\<close>
  raised. When the gateway answers with a status code other than 200, the handler
  does not fail: it returns the success envelope (status 200, message
  \<open>success\<close>) with \<open>data\<close> null.
\<close>

theorem get_asr_status_fresh_query:
  "fst (get_asr_status p w) =
     (case status_result (gateway w (trace w) (GET (status_url w p))) of
        Inl e \<Rightarrow> Inl e
      | Inr st \<Rightarrow> Inr (ResponseModel st))
   \<and> timeline (trace (snd (get_asr_status p w))) = timeline (trace w) @ [Inr (GET (status_url w p))]
   \<and> files (snd (get_asr_status p w)) = files w
   \<and> (gateway w (trace w) (GET (status_url w p)) = Transport_fault \<longrightarrow>
        fst (get_asr_status p w) = Inl ConnectionError)
   \<and> (\<forall>res. gateway w (trace w) (GET (status_url w p)) = Http res \<and> status_code res \<noteq> 200 \<longrightarrow>
        fst (get_asr_status p w)
          = Inr \<lparr>rm_status = 200, rm_message = ''success'', rm_data = PNone\<rparr>)"
  by (simp add: get_asr_status_unfold req_gen_status_unfold status_result_def ResponseModel_def
      status_log_events_def split: net_reply.splits)

theorem get_asr_status_fresh_query_witness:
  "gateway (test_world (always Transport_fault)) []
      (GET ''http://gw/api/v1/firmware/status?prj_name=abc123'') = Transport_fault
   \<and> fst (get_asr_status ''abc123'' (test_world (always Transport_fault))) = Inl ConnectionError
   \<and> gateway (test_world (always (Http (empty_response 503)))) []
      (GET ''http://gw/api/v1/firmware/status?prj_name=abc123'') = Http (empty_response 503)
   \<and> status_code (empty_response 503) \<noteq> 200
   \<and> fst (get_asr_status ''abc123'' (test_world (always (Http (empty_response 503)))))
       = Inr \<lparr>rm_status = 200, rm_message = ''success'', rm_data = PNone\<rparr>"
  using get_asr_status_fresh_query[of "''abc123''" "test_world (always Transport_fault)"]
    get_asr_status_fresh_query[of "''abc123''" "test_world (always (Http (empty_response 503)))"]
  by (simp add: status_result_def ResponseModel_def)

text \<open>
  The gateway answers the status call with 500, a non-success response, and the
  handler returns the success envelope instead of an error.
\<close>

theorem get_asr_status_non_success_counterexample:
  "gateway (test_world (always (Http (empty_response 500))))
      (trace (test_world (always (Http (empty_response 500)))))
      (GET (status_url (test_world (always (Http (empty_response 500)))) ''abc123''))
     = Http (empty_response 500)
   \<and> status_code (empty_response 500) = 500
   \<and> get_asr_status ''abc123'' (test_world (always (Http (empty_response 500)))) =
     (Inr \<lparr>rm_status = 200, rm_message = ''success'', rm_data = PNone\<rparr>,
      (test_world (always (Http (empty_response 500))))\<lparr>trace :=
         [Call (GET ''http://gw/api/v1/firmware/status?prj_name=abc123'') (Http (empty_response 500)),
          Log_error (Status_failed [])]\<rparr>)"
  by (simp add: get_asr_status_def req_gen_status_unfold status_result_def ResponseModel_def
      status_log_events_def)

section \<open>Failing status calls in the poll loop\<close>

lemma get_firmware_loop_none:
  assumes "\<forall>tr. \<exists>res. gateway w tr (GET (status_url w g)) = Http res \<and> status_code res \<noteq> 200"
  shows "get_firmware_loop g w = None"
proof (cases "get_firmware_loop g w")
  case (Some y)
  from get_firmware_loop_never_returns[OF this assms] show ?thesis ..
qed simp

text \<open>
  Claim C5, as the code has it. An iteration whose status call gets a response
  with a status code other than 200 is taken as not yet terminal: after the
  sleep, the call and the log line, \<open>get_firmware\<close> goes on with the next cycle,
  nothing is downloaded and the loop is not left. A gateway that answers every
  status call with such a response makes \<open>get_firmware\<close> retry for ever: it never
  returns (the value \<open>None\<close> of the model). An iteration whose status call suffers
  a transport fault is not absorbed: the \<open>ConnectionError\<close> leaves the loop and
  ends \<open>get_firmware\<close>, with no download.
\<close>

theorem status_failure_in_poll_loop:
  "(\<forall>res. gateway w (trace w @ [Sleep 5]) (GET (status_url w g)) = Http res
          \<and> status_code res \<noteq> 200 \<longrightarrow>
      get_firmware g w =
        get_firmware g (w\<lparr>trace := trace w @
           [Sleep 5, Call (GET (status_url w g)) (Http res),
            Log_error (Status_failed (text' res))]\<rparr>))
   \<and> ((\<forall>tr. \<exists>res. gateway w tr (GET (status_url w g)) = Http res \<and> status_code res \<noteq> 200) \<longrightarrow>
      get_firmware g w = None)
   \<and> (gateway w (trace w @ [Sleep 5]) (GET (status_url w g)) = Transport_fault \<longrightarrow>
      get_firmware g w =
        Some (Inl ConnectionError,
              w\<lparr>trace := trace w @ [Sleep 5, Call (GET (status_url w g)) Transport_fault]\<rparr>))"
proof (intro conjI allI impI)
  fix res
  assume a: "gateway w (trace w @ [Sleep 5]) (GET (status_url w g)) = Http res
          \<and> status_code res \<noteq> 200"
  then have "req_gen_status g (time_sleep 5 w) =
     (Inr PNone, w\<lparr>trace := trace w @
           [Sleep 5, Call (GET (status_url w g)) (Http res),
            Log_error (Status_failed (text' res))]\<rparr>)"
    by (simp add: req_gen_status_unfold time_sleep_def emit_as_update status_result_def
        status_log_events_def status_url_def)
  from get_firmware_step[OF this]
  show "get_firmware g w =
        get_firmware g (w\<lparr>trace := trace w @
           [Sleep 5, Call (GET (status_url w g)) (Http res),
            Log_error (Status_failed (text' res))]\<rparr>)"
    by (simp add: get_firmware_def)
next
  assume "\<forall>tr. \<exists>res. gateway w tr (GET (status_url w g)) = Http res \<and> status_code res \<noteq> 200"
  then show "get_firmware g w = None"
    by (simp add: get_firmware_def get_firmware_loop_none)
next
  assume a: "gateway w (trace w @ [Sleep 5]) (GET (status_url w g)) = Transport_fault"
  then have "req_gen_status g (time_sleep 5 w) =
     (Inl ConnectionError,
      w\<lparr>trace := trace w @ [Sleep 5, Call (GET (status_url w g)) Transport_fault]\<rparr>)"
    by (simp add: req_gen_status_unfold time_sleep_def emit_as_update status_result_def
        status_log_events_def status_url_def)
  then show "get_firmware g w =
        Some (Inl ConnectionError,
              w\<lparr>trace := trace w @ [Sleep 5, Call (GET (status_url w g)) Transport_fault]\<rparr>)"
    by (simp add: get_firmware_def get_firmware_loop.simps)
qed

theorem status_failure_in_poll_loop_witness:
  "gateway (test_world (always (Http (empty_response 503)))) ([] @ [Sleep 5])
      (GET ''http://gw/api/v1/firmware/status?prj_name=abc123'') = Http (empty_response 503)
   \<and> status_code (empty_response 503) \<noteq> 200
   \<and> get_firmware ''abc123'' (test_world (always (Http (empty_response 503)))) =
       get_firmware ''abc123'' ((test_world (always (Http (empty_response 503))))\<lparr>trace :=
          [Sleep 5,
           Call (GET ''http://gw/api/v1/firmware/status?prj_name=abc123'') (Http (empty_response 503)),
           Log_error (Status_failed [])]\<rparr>)
   \<and> get_firmware ''abc123'' (test_world (always (Http (empty_response 503)))) = None
   \<and> gateway (test_world (always Transport_fault)) ([] @ [Sleep 5])
      (GET ''http://gw/api/v1/firmware/status?prj_name=abc123'') = Transport_fault
   \<and> get_firmware ''abc123'' (test_world (always Transport_fault)) =
       Some (Inl ConnectionError,
             (test_world (always Transport_fault))\<lparr>trace :=
                [Sleep 5,
                 Call (GET ''http://gw/api/v1/firmware/status?prj_name=abc123'') Transport_fault]\<rparr>)"
  using status_failure_in_poll_loop[of "test_world (always (Http (empty_response 503)))" "''abc123''"]
    status_failure_in_poll_loop[of "test_world (always Transport_fault)" "''abc123''"]
  by auto

text \<open>
  On a gateway whose status call suffers a transport fault, the poll loop ends in
  its first iteration.
\<close>

theorem transport_fault_ends_poll_loop_counterexample:
  "gateway (test_world (always Transport_fault))
      (trace (time_sleep 5 (test_world (always Transport_fault))))
      (GET (status_url (test_world (always Transport_fault)) ''abc123'')) = Transport_fault
   \<and> get_firmware ''abc123'' (test_world (always Transport_fault)) =
       Some (Inl ConnectionError,
             (test_world (always Transport_fault))\<lparr>trace :=
                [Sleep 5,
                 Call (GET ''http://gw/api/v1/firmware/status?prj_name=abc123'') Transport_fault]\<rparr>)"
  by (simp add: get_firmware_def get_firmware_loop.simps req_gen_status_unfold time_sleep_def
      emit_as_update status_result_def status_log_events_def)

section \<open>Download and persist\<close>

text \<open>
  Claim C8. For every job id \<open>g\<close> and content: when the download succeeds and the
  file can be opened, \<open>req_download_firmware\<close> writes the content to the path
  \<open>dir/g.bin\<close>, where \<open>dir\<close> is the configured \<open>FIRMWARE_PATH\<close>, and returns that
  path, which depends on \<open>dir\<close> and \<open>g\<close> only. A second download for the same job
  with other bytes writes to the same path: afterwards the local files are those
  from before the first call with the latest content at that path, and nothing of
  the first content is left.
\<close>

theorem req_download_firmware_persists:
  assumes "environ w ''FIRMWARE_PATH'' = Some dir"
    and "gateway w (trace w) (GET (download_url w g)) = Http res"
    and "status_code res = 200"
    and "writable w (dir @ ''/'' @ g @ ''.bin'')"
  shows "req_download_firmware g w =
           (Inr (Some (dir @ ''/'' @ g @ ''.bin'')),
            w\<lparr>files := (files w)(dir @ ''/'' @ g @ ''.bin'' \<mapsto> content res),
              trace := trace w @ [Call (GET (download_url w g)) (Http res),
                                   File_write (dir @ ''/'' @ g @ ''.bin'') (content res)]\<rparr>)
       \<and> (\<forall>res2. gateway w (trace (snd (req_download_firmware g w))) (GET (download_url w g))
                   = Http res2 \<and> status_code res2 = 200 \<longrightarrow>
            fst (req_download_firmware g (snd (req_download_firmware g w)))
              = Inr (Some (dir @ ''/'' @ g @ ''.bin''))
          \<and> files (snd (req_download_firmware g (snd (req_download_firmware g w))))
              = (files w)(dir @ ''/'' @ g @ ''.bin'' \<mapsto> content res2))"
proof -
  have path: "save_path w g = dir @ ''/'' @ g @ ''.bin''"
    using assms(1) by (simp add: save_path_def)
  define w1 where
    "w1 = w\<lparr>files := (files w)(dir @ ''/'' @ g @ ''.bin'' \<mapsto> content res),
              trace := trace w @ [Call (GET (download_url w g)) (Http res),
                                   File_write (dir @ ''/'' @ g @ ''.bin'') (content res)]\<rparr>"
  have first: "req_download_firmware g w = (Inr (Some (dir @ ''/'' @ g @ ''.bin'')), w1)"
    using req_download_firmware_written[of w g res] assms path by (simp add: w1_def)
  have w1: "gateway w1 = gateway w" "download_url w1 g = download_url w g"
    "save_path w1 g = dir @ ''/'' @ g @ ''.bin''" "writable w1 = writable w"
    "files w1 = (files w)(dir @ ''/'' @ g @ ''.bin'' \<mapsto> content res)"
    using path by (simp_all add: w1_def download_url_def save_path_def)
  have second: "fst (req_download_firmware g w1) = Inr (Some (dir @ ''/'' @ g @ ''.bin''))
          \<and> files (snd (req_download_firmware g w1))
              = (files w)(dir @ ''/'' @ g @ ''.bin'' \<mapsto> content res2)"
    if "gateway w (trace w1) (GET (download_url w g)) = Http res2" "status_code res2 = 200"
    for res2
    using req_download_firmware_written[of w1 g res2] that assms(4) w1 by simp
  show ?thesis
    unfolding first using second by (simp add: w1_def)
qed

theorem req_download_firmware_persists_witness:
  "environ (test_world (replaying [Http (firmware_response [1, 2, 3]), Http (firmware_response [4, 5])]))
      ''FIRMWARE_PATH'' = Some ''/fw''
   \<and> writable (test_world (replaying [Http (firmware_response [1, 2, 3]), Http (firmware_response [4, 5])]))
      (''/fw'' @ ''/'' @ ''abc123'' @ ''.bin'')
   \<and> req_download_firmware ''abc123''
        (test_world (replaying [Http (firmware_response [1, 2, 3]), Http (firmware_response [4, 5])])) =
      (Inr (Some ''/fw/abc123.bin''),
       (test_world (replaying [Http (firmware_response [1, 2, 3]), Http (firmware_response [4, 5])]))
         \<lparr>files := [''/fw/abc123.bin'' \<mapsto> [1, 2, 3]],
          trace := [Call (GET ''http://gw/api/v1/firmware/download?prj_name=abc123'')
                      (Http (firmware_response [1, 2, 3])),
                    File_write ''/fw/abc123.bin'' [1, 2, 3]]\<rparr>)
   \<and> fst (req_download_firmware ''abc123'' (snd (req_download_firmware ''abc123''
        (test_world (replaying [Http (firmware_response [1, 2, 3]), Http (firmware_response [4, 5])])))))
      = Inr (Some ''/fw/abc123.bin'')
   \<and> files (snd (req_download_firmware ''abc123'' (snd (req_download_firmware ''abc123''
        (test_world (replaying [Http (firmware_response [1, 2, 3]), Http (firmware_response [4, 5])]))))))
      = [''/fw/abc123.bin'' \<mapsto> [4, 5]]"
proof -
  define W where
    "W = test_world (replaying [Http (firmware_response [1, 2, 3]), Http (firmware_response [4, 5])])"
  have h1: "environ W ''FIRMWARE_PATH'' = Some ''/fw''"
    by (simp add: W_def)
  have h2: "gateway W (trace W) (GET (download_url W ''abc123'')) = Http (firmware_response [1, 2, 3])"
    by (simp add: W_def replaying_def)
  have h3: "status_code (firmware_response [1, 2, 3]) = 200"
    by simp
  have h4: "writable W (''/fw'' @ ''/'' @ ''abc123'' @ ''.bin'')"
    by (simp add: W_def)
  note t = req_download_firmware_persists[OF h1 h2 h3 h4]
  have first: "req_download_firmware ''abc123'' W =
      (Inr (Some ''/fw/abc123.bin''),
       W\<lparr>files := [''/fw/abc123.bin'' \<mapsto> [1, 2, 3]],
          trace := [Call (GET ''http://gw/api/v1/firmware/download?prj_name=abc123'')
                      (Http (firmware_response [1, 2, 3])),
                    File_write ''/fw/abc123.bin'' [1, 2, 3]]\<rparr>)"
    using t by (simp add: W_def)
  have h5: "gateway W (trace (snd (req_download_firmware ''abc123'' W)))
              (GET (download_url W ''abc123'')) = Http (firmware_response [4, 5])
            \<and> status_code (firmware_response [4, 5]) = 200"
    unfolding first by (simp add: W_def replaying_def)
  from t h5 have "fst (req_download_firmware ''abc123'' (snd (req_download_firmware ''abc123'' W)))
              = Inr (Some (''/fw'' @ ''/'' @ ''abc123'' @ ''.bin''))
          \<and> files (snd (req_download_firmware ''abc123'' (snd (req_download_firmware ''abc123'' W))))
              = (files W)(''/fw'' @ ''/'' @ ''abc123'' @ ''.bin'' \<mapsto> content (firmware_response [4, 5]))"
    by blast
  then show ?thesis
    using h1 h4 first unfolding W_def by simp
qed

text \<open>
  Claim C10. When the gateway answers the download call with a non-2xx status
  code, \<open>req_download_firmware\<close> logs and returns \<open>None\<close>; the world differs from
  the one before only by the call and the log line in the trace. And unless the
  answer is a response with status code 200, the local files are unchanged and no
  file write has happened: the artifact file is written only on a successful
  download.
\<close>

theorem req_download_firmware_failed_no_file:
  "(\<forall>res. gateway w (trace w) (GET (download_url w g)) = Http res
          \<and> (status_code res < 200 \<or> 300 \<le> status_code res) \<longrightarrow>
      req_download_firmware g w =
        (Inr None,
         w\<lparr>trace := trace w @ [Call (GET (download_url w g)) (Http res),
                                Log_error (Download_failed (text' res))]\<rparr>))
   \<and> ((\<forall>res. gateway w (trace w) (GET (download_url w g)) = Http res \<longrightarrow> status_code res \<noteq> 200) \<longrightarrow>
        files (snd (req_download_firmware g w)) = files w
      \<and> filter is_file_write (trace (snd (req_download_firmware g w)))
          = filter is_file_write (trace w))"
proof (intro conjI allI impI)
  fix res
  assume "gateway w (trace w) (GET (download_url w g)) = Http res
          \<and> (status_code res < 200 \<or> 300 \<le> status_code res)"
  then have "gateway w (trace w) (GET (download_url w g)) = Http res" "status_code res \<noteq> 200"
    by auto
  then show "req_download_firmware g w =
        (Inr None,
         w\<lparr>trace := trace w @ [Call (GET (download_url w g)) (Http res),
                                Log_error (Download_failed (text' res))]\<rparr>)"
    by (rule req_download_firmware_not_200)
next
  assume a: "\<forall>res. gateway w (trace w) (GET (download_url w g)) = Http res \<longrightarrow> status_code res \<noteq> 200"
  show "files (snd (req_download_firmware g w)) = files w"
  proof (cases "gateway w (trace w) (GET (download_url w g))")
    case Transport_fault
    then show ?thesis by (simp add: req_download_firmware_fault)
  next
    case (Http res)
    with a show ?thesis by (simp add: req_download_firmware_not_200)
  qed
  show "filter is_file_write (trace (snd (req_download_firmware g w)))
          = filter is_file_write (trace w)"
  proof (cases "gateway w (trace w) (GET (download_url w g))")
    case Transport_fault
    then show ?thesis by (simp add: req_download_firmware_fault)
  next
    case (Http res)
    with a show ?thesis by (simp add: req_download_firmware_not_200)
  qed
qed

theorem req_download_firmware_failed_no_file_witness:
  "gateway (test_world (always (Http (empty_response 404)))) []
      (GET ''http://gw/api/v1/firmware/download?prj_name=abc123'') = Http (empty_response 404)
   \<and> (status_code (empty_response 404) < 200 \<or> 300 \<le> status_code (empty_response 404))
   \<and> req_download_firmware ''abc123'' (test_world (always (Http (empty_response 404)))) =
        (Inr None,
         (test_world (always (Http (empty_response 404))))\<lparr>trace :=
            [Call (GET ''http://gw/api/v1/firmware/download?prj_name=abc123'')
               (Http (empty_response 404)),
             Log_error (Download_failed [])]\<rparr>)
   \<and> files (snd (req_download_firmware ''abc123'' (test_world (always (Http (empty_response 404))))))
       = Map.empty
   \<and> filter is_file_write
        (trace (snd (req_download_firmware ''abc123'' (test_world (always (Http (empty_response 404)))))))
       = []"
  using req_download_firmware_failed_no_file[of "test_world (always (Http (empty_response 404)))" "''abc123''"]
  by auto

end
